theory Spec2Isabelle
  imports Complex_Main
begin

section \<open>Python values used by \<^verbatim>\<open>astroplan/target.py\<close>\<close>

text \<open>
  The module raises \<^verbatim>\<open>ValueError\<close> (with a message), \<^verbatim>\<open>TypeError\<close> and
  \<^verbatim>\<open>NotImplementedError\<close> itself; \<^verbatim>\<open>AttributeError\<close> and \<^verbatim>\<open>IndexError\<close> are what
  Python raises on \<^verbatim>\<open>None.size\<close>, \<^verbatim>\<open>None.location\<close> and \<^verbatim>\<open>coords[0]\<close> of an empty
  list. \<open>EphemerisError\<close> stands for a failure of the ephemeris service.
  A raised exception is the \<open>Inl\<close> branch of the result.
\<close>

datatype error =
    ValueError string
  | TypeError
  | AttributeError
  | IndexError
  | NotImplementedError
  | EphemerisError

definition broadcast_msg :: string where
  "broadcast_msg =
     ''Either targets or times should be scalor, or the lengths of two lists should match''"

definition cet_times_msg :: string where
  "cet_times_msg =
     ''times should be given to calculate the coordinates for ConstantElevationTarget''"

definition sst_times_msg :: string where
  "sst_times_msg =
     ''times should be given to calculate the coordinates for SolarSystemTarget''"

text \<open>The names the specification gives to the module's \<^verbatim>\<open>ValueError\<close>s.\<close>

definition BroadcastMismatch :: error where
  "BroadcastMismatch = ValueError broadcast_msg"

definition MissingInput :: "error \<Rightarrow> bool" where
  "MissingInput e \<longleftrightarrow> e = ValueError cet_times_msg \<or> e = ValueError sst_times_msg"

text \<open>
  \<^verbatim>\<open>str.lower()\<close> on strings of bytes: the ASCII capitals are mapped to their small
  letters. The keys of the mock table are ASCII and hold no \<open>k\<close>, so no character
  beyond ASCII is lowered by Python into a key.
\<close>

definition lower_char :: "char \<Rightarrow> char" where
  "lower_char c =
     (let n = (of_char c :: nat) in if 65 \<le> n \<and> n \<le> 90 then char_of (n + 32) else c)"

definition lower :: "string \<Rightarrow> string" where
  "lower s = map lower_char s"

text \<open>First error wins: a list comprehension or a loop whose body may raise.\<close>

fun those_sum :: "(error + 'a) list \<Rightarrow> error + 'a list" where
  "those_sum [] = Inr []"
| "those_sum (x # xs) =
     (case x of
        Inl e \<Rightarrow> Inl e
      | Inr v \<Rightarrow> (case those_sum xs of Inl e \<Rightarrow> Inl e | Inr vs \<Rightarrow> Inr (v # vs)))"

subsection \<open>Times\<close>

text \<open>
  An astropy \<^verbatim>\<open>Time\<close> is a scalar or a one-dimensional array of instants (an instant
  is a real number, say a Julian date). \<^verbatim>\<open>.size\<close> of a scalar is 1; a scalar is not
  subscriptable; an index past the end raises \<^verbatim>\<open>IndexError\<close>.
\<close>

datatype Time = TimeScalar real | TimeArray "real list"

fun Time_size :: "Time \<Rightarrow> nat" where
  "Time_size (TimeScalar t) = 1"
| "Time_size (TimeArray ts) = length ts"

fun Time_getitem :: "Time \<Rightarrow> nat \<Rightarrow> error + Time" where
  "Time_getitem (TimeScalar t) i = Inl TypeError"
| "Time_getitem (TimeArray ts) i =
     (if i < length ts then Inr (TimeScalar (ts ! i)) else Inl IndexError)"

subsection \<open>Positions\<close>

text \<open>
  A position is one sky point: a frame and the data held in it, either angles only
  (\<^verbatim>\<open>UnitSphericalRepresentation\<close>) or angles with a distance. Angles are degrees,
  kept as real numbers; the module does no arithmetic on them. Shapes of array-valued
  positions are not modelled.
\<close>

datatype qunit = dimensionless | kpc | pc | AU

datatype quantity = Quantity real qunit

datatype EarthLocation = EarthLocation real real real

datatype frame = ICRS | Galactic | GCRS Time | AltAz Time EarthLocation

datatype representation =
    UnitSphericalRepresentation real real
  | SphericalRepresentation real real quantity

record SkyCoord =
  frame :: frame
  data :: representation

datatype Observer = Observer (location: EarthLocation)

fun is_unitspherical :: "representation \<Rightarrow> bool" where
  "is_unitspherical (UnitSphericalRepresentation lo la) = True"
| "is_unitspherical (SphericalRepresentation lo la d) = False"

fun rep_lon :: "representation \<Rightarrow> real" where
  "rep_lon (UnitSphericalRepresentation lo la) = lo"
| "rep_lon (SphericalRepresentation lo la d) = lo"

fun rep_lat :: "representation \<Rightarrow> real" where
  "rep_lat (UnitSphericalRepresentation lo la) = la"
| "rep_lat (SphericalRepresentation lo la d) = la"

text \<open>
  \<^verbatim>\<open>coord.distance\<close>: a position without distance reports the dimensionless
  distance 1.
\<close>

fun rep_distance :: "representation \<Rightarrow> quantity" where
  "rep_distance (UnitSphericalRepresentation lo la) = Quantity 1 dimensionless"
| "rep_distance (SphericalRepresentation lo la d) = d"

definition distance :: "SkyCoord \<Rightarrow> quantity" where
  "distance c = rep_distance (data c)"

text \<open>
  \<^verbatim>\<open>distance != 1\<close>: a quantity with a length unit is never equal to the bare
  number 1; a dimensionless one is compared by value.
\<close>

fun ne_1 :: "quantity \<Rightarrow> bool" where
  "ne_1 (Quantity v u) = (u \<noteq> dimensionless \<or> v \<noteq> 1)"

definition is_equivalent_frame :: "frame \<Rightarrow> frame \<Rightarrow> bool" where
  "is_equivalent_frame f g \<longleftrightarrow> f = g"

text \<open>
  The names a frame gives to its two angles
  (\<^verbatim>\<open>frame_specific_representation_info[UnitSphericalRepresentation]\<close>), and
  \<^verbatim>\<open>getattr(coordinate, name)\<close> for such a name.
\<close>

fun spherical_names :: "frame \<Rightarrow> string \<times> string" where
  "spherical_names ICRS = (''ra'', ''dec'')"
| "spherical_names Galactic = (''l'', ''b'')"
| "spherical_names (GCRS t) = (''ra'', ''dec'')"
| "spherical_names (AltAz t loc) = (''az'', ''alt'')"

definition SkyCoord_getattr :: "SkyCoord \<Rightarrow> string \<Rightarrow> error + real" where
  "SkyCoord_getattr c attr =
     (if attr = fst (spherical_names (frame c)) then Inr (rep_lon (data c))
      else if attr = snd (spherical_names (frame c)) then Inr (rep_lat (data c))
      else Inl AttributeError)"

text \<open>\<^verbatim>\<open>SkyCoord(ra=..., dec=...)\<close> and \<^verbatim>\<open>SkyCoord(az, alt, frame=AltAz(...))\<close>.\<close>

definition SkyCoord_radec :: "real \<Rightarrow> real \<Rightarrow> SkyCoord" where
  "SkyCoord_radec ra dec = \<lparr>frame = ICRS, data = UnitSphericalRepresentation ra dec\<rparr>"

definition SkyCoord_in_frame :: "real \<Rightarrow> real \<Rightarrow> frame \<Rightarrow> SkyCoord" where
  "SkyCoord_in_frame lo la f = \<lparr>frame = f, data = UnitSphericalRepresentation lo la\<rparr>"

subsection \<open>The external services\<close>

text \<open>
  The ephemeris lookup \<^verbatim>\<open>get_body(body, time, location)\<close> and the frame transformation
  behind \<^verbatim>\<open>coordinate.icrs\<close> are astropy's; they are parameters of the model. The
  transformation yields the data of the position in ICRS.
\<close>

record astropy =
  get_body :: "string \<Rightarrow> Time \<Rightarrow> EarthLocation \<Rightarrow> error + SkyCoord"
  to_icrs :: "SkyCoord \<Rightarrow> representation"

definition icrs :: "astropy \<Rightarrow> SkyCoord \<Rightarrow> SkyCoord" where
  "icrs svc c = \<lparr>frame = ICRS, data = to_icrs svc c\<rparr>"

section \<open>Targets\<close>

record ConstantElevation =
  alt :: real
  az_min :: real
  az_max :: real
  name :: "string option"
  ramin :: "real option"
  decc :: "real option"
  alt_var :: bool
  min_alt :: "real option"
  max_alt :: "real option"

text \<open>
  The subclasses of \<^verbatim>\<open>Target\<close>. \<^verbatim>\<open>NonFixedTarget\<close> is a placeholder that inherits
  \<^verbatim>\<open>Target.__init__\<close>, which raises \<^verbatim>\<open>NotImplementedError\<close>.
\<close>

datatype Target =
    FixedTarget (coord: SkyCoord) "string option"
  | NonFixedTarget
  | ConstantElevationTarget ConstantElevation
  | SolarSystemTarget (eph_name: string) "string option"

text \<open>
  What a caller can hand to \<^verbatim>\<open>get_skycoord\<close> as one target: a \<^verbatim>\<open>SkyCoord\<close> or a
  \<^verbatim>\<open>Target\<close>. The argument \<^verbatim>\<open>targets\<close> is one such object or a Python list of them.
\<close>

datatype pyobj = SkyCoordObj SkyCoord | TargetObj Target

datatype targets_arg = Single pyobj | TList "pyobj list"

definition Target_init :: "error + Target" where
  "Target_init = Inl NotImplementedError"

text \<open>
  \<^verbatim>\<open>FixedTarget.__init__\<close>: the coordinate must have \<^verbatim>\<open>transform_to\<close> and
  \<^verbatim>\<open>represent_as\<close>, which a \<^verbatim>\<open>SkyCoord\<close> has and a target has not.
\<close>

fun FixedTarget_init :: "pyobj \<Rightarrow> string option \<Rightarrow> error + Target" where
  "FixedTarget_init (SkyCoordObj c) nm = Inr (FixedTarget c nm)"
| "FixedTarget_init (TargetObj t) nm = Inl TypeError"



subsection \<open>\<^verbatim>\<open>FixedTarget._from_name_mock\<close>\<close>

definition stars :: "(string \<times> real \<times> real) list" where
  "stars =
     [(''rigel'', 78.63446707, - 8.20163837),
      (''sirius'', 101.28715533, - 16.71611586),
      (''vega'', 279.23473479, 38.78368896),
      (''aldebaran'', 68.98016279, 16.50930235),
      (''polaris'', 37.95456067, 89.26410897),
      (''deneb'', 310.35797975, 45.28033881),
      (''m13'', 250.423475, 36.4613194),
      (''altair'', 297.6958273, 8.8683212),
      (''hd 209458'', 330.79, 18.88)]"

definition not_mocked_msg :: "string \<Rightarrow> string" where
  "not_mocked_msg query_name =
     ''Target named '' @ query_name @ '' not in mocked FixedTarget method''"

definition from_name_mock :: "string \<Rightarrow> string option \<Rightarrow> error + Target" where
  "from_name_mock query_name nm =
     (case map_of stars (lower query_name) of
        Some (ra, dec) \<Rightarrow> FixedTarget_init (SkyCoordObj (SkyCoord_radec ra dec)) (Some query_name)
      | None \<Rightarrow> Inl (ValueError (not_mocked_msg query_name)))"

section \<open>\<^verbatim>\<open>get_skycoord\<close>\<close>

text \<open>
  The value of \<^verbatim>\<open>get_skycoord\<close> is the \<^verbatim>\<open>SkyCoord\<close> constructor call it ends with:
  \<^verbatim>\<open>SkyCoord(coords)\<close>, \<^verbatim>\<open>SkyCoord(longitudes, latitudes, frame=frame)\<close> or
  \<^verbatim>\<open>SkyCoord(longitudes, latitudes, distances, frame=frame)\<close>.
\<close>

datatype coordseq =
    SkyCoord_of_list "pyobj list"
  | SkyCoord_lonlat "real list" "real list" frame
  | SkyCoord_lonlatdist "real list" "real list" "quantity list" frame

text \<open>\<^verbatim>\<open>targets.size\<close>, else \<^verbatim>\<open>len(targets)\<close>, else 1; then the wrapping in a list.\<close>

fun target_size_of :: "targets_arg \<Rightarrow> nat" where
  "target_size_of (Single x) = 1"
| "target_size_of (TList xs) = length xs"

fun as_list :: "targets_arg \<Rightarrow> pyobj list" where
  "as_list (Single x) = [x]"
| "as_list (TList xs) = xs"

text \<open>The time paired with target number \<open>itarget\<close>.\<close>

definition select_time :: "Time option \<Rightarrow> nat \<Rightarrow> nat \<Rightarrow> error + Time option" where
  "select_time times' target_size itarget =
     (case times' of
        None \<Rightarrow> Inr None
      | Some ts \<Rightarrow>
          if Time_size ts = 1 \<or> target_size = 1 then Inr (Some ts)
          else (case Time_getitem ts itarget of Inl e \<Rightarrow> Inl e | Inr t \<Rightarrow> Inr (Some t)))"

text \<open>
  The inner loop of the \<^verbatim>\<open>ConstantElevationTarget\<close> branch, over \<^verbatim>\<open>range(times.size)\<close>:
  \<^verbatim>\<open>time[i]\<close> is read before \<^verbatim>\<open>observer.location\<close>.
\<close>

fun cet_coords ::
  "ConstantElevation \<Rightarrow> Time \<Rightarrow> Observer option \<Rightarrow> nat list \<Rightarrow> error + pyobj list" where
  "cet_coords target time observer [] = Inr []"
| "cet_coords target time observer (i # rest) =
     (case Time_getitem time i of
        Inl e \<Rightarrow> Inl e
      | Inr ti \<Rightarrow>
          (case observer of
             None \<Rightarrow> Inl AttributeError
           | Some ob \<Rightarrow>
               (case cet_coords target time observer rest of
                  Inl e \<Rightarrow> Inl e
                | Inr cs \<Rightarrow>
                    Inr (SkyCoordObj
                          (SkyCoord_in_frame (az_min target) (alt target) (AltAz ti (location ob)))
                         # cs))))"

text \<open>One pass of the loop over \<^verbatim>\<open>enumerate(targets)\<close>: the coordinates it appends.\<close>

definition target_coords ::
  "astropy \<Rightarrow> nat \<Rightarrow> Time option \<Rightarrow> Observer option \<Rightarrow> nat \<Rightarrow> pyobj \<Rightarrow> error + pyobj list"
where
  "target_coords svc target_size times' observer itarget target =
     (case select_time times' target_size itarget of
        Inl e \<Rightarrow> Inl e
      | Inr time \<Rightarrow>
          (case target of
             TargetObj (FixedTarget c nm) \<Rightarrow>
               if target_size = 1 then
                 (case times' of
                    None \<Rightarrow> Inl AttributeError
                  | Some ts \<Rightarrow> Inr (replicate (Time_size ts) (SkyCoordObj c)))
               else Inr [SkyCoordObj c]
           | TargetObj (ConstantElevationTarget cet) \<Rightarrow>
               (case time of
                  None \<Rightarrow> Inl (ValueError cet_times_msg)
                | Some tm \<Rightarrow>
                    if Time_size tm = 1 then
                      (case observer of
                         None \<Rightarrow> Inl AttributeError
                       | Some ob \<Rightarrow>
                           Inr [SkyCoordObj
                                 (SkyCoord_in_frame (az_min cet) (alt cet)
                                    (AltAz tm (location ob)))])
                    else
                      (case times' of
                         None \<Rightarrow> Inl AttributeError
                       | Some ts \<Rightarrow> cet_coords cet tm observer [0 ..< Time_size ts]))
           | TargetObj (SolarSystemTarget en nm) \<Rightarrow>
               (case time of
                  None \<Rightarrow> Inl (ValueError sst_times_msg)
                | Some tm \<Rightarrow>
                    (case observer of
                       None \<Rightarrow> Inl AttributeError
                     | Some ob \<Rightarrow>
                         (case get_body svc (lower en) tm (location ob) of
                            Inl e \<Rightarrow> Inl e
                          | Inr c \<Rightarrow> Inr [SkyCoordObj c])))
           | other \<Rightarrow> Inr [other]))"

fun targets_loop ::
  "astropy \<Rightarrow> nat \<Rightarrow> Time option \<Rightarrow> Observer option \<Rightarrow> nat \<Rightarrow> pyobj list \<Rightarrow> error + pyobj list"
where
  "targets_loop svc target_size times' observer itarget [] = Inr []"
| "targets_loop svc target_size times' observer itarget (target # rest) =
     (case target_coords svc target_size times' observer itarget target of
        Inl e \<Rightarrow> Inl e
      | Inr cs \<Rightarrow>
          (case targets_loop svc target_size times' observer (Suc itarget) rest of
             Inl e \<Rightarrow> Inl e
           | Inr cs' \<Rightarrow> Inr (cs @ cs')))"

subsection \<open>The merge of positions in different frames and representations\<close>

text \<open>Reading \<^verbatim>\<open>.frame\<close> or \<^verbatim>\<open>.data\<close> of an object that is not a position fails.\<close>

fun as_SkyCoord :: "pyobj \<Rightarrow> error + SkyCoord" where
  "as_SkyCoord (SkyCoordObj c) = Inr c"
| "as_SkyCoord (TargetObj t) = Inl AttributeError"

text \<open>The loop of the mixed-frame branch: every position goes through \<^verbatim>\<open>.icrs\<close>.\<close>

fun icrs_loop ::
  "astropy \<Rightarrow> bool \<Rightarrow> SkyCoord list \<Rightarrow> error + real list \<times> real list \<times> quantity list" where
  "icrs_loop svc get_distances [] = Inr ([], [], [])"
| "icrs_loop svc get_distances (coordinate # rest) =
     (let icrs_coordinate = icrs svc coordinate in
      case SkyCoord_getattr icrs_coordinate ''ra'' of
        Inl e \<Rightarrow> Inl e
      | Inr lo \<Rightarrow>
          (case SkyCoord_getattr icrs_coordinate ''dec'' of
             Inl e \<Rightarrow> Inl e
           | Inr la \<Rightarrow>
               (case icrs_loop svc get_distances rest of
                  Inl e \<Rightarrow> Inl e
                | Inr (los, las, ds) \<Rightarrow>
                    Inr (lo # los, la # las,
                         if get_distances then distance icrs_coordinate # ds else ds))))"

text \<open>The loop of the same-frame branch, with the angle names of the first position.\<close>

fun frame_loop ::
  "string \<Rightarrow> string \<Rightarrow> bool \<Rightarrow> SkyCoord list \<Rightarrow> error + real list \<times> real list \<times> quantity list"
where
  "frame_loop lon_name lat_name get_distances [] = Inr ([], [], [])"
| "frame_loop lon_name lat_name get_distances (coordinate # rest) =
     (case SkyCoord_getattr coordinate lon_name of
        Inl e \<Rightarrow> Inl e
      | Inr lo \<Rightarrow>
          (case SkyCoord_getattr coordinate lat_name of
             Inl e \<Rightarrow> Inl e
           | Inr la \<Rightarrow>
               (case frame_loop lon_name lat_name get_distances rest of
                  Inl e \<Rightarrow> Inl e
                | Inr (los, las, ds) \<Rightarrow>
                    Inr (lo # los, la # las,
                         if get_distances then distance coordinate # ds else ds))))"

definition sentinel :: quantity where
  "sentinel = Quantity 100 kpc"

text \<open>
  The merge proper, on the positions \<open>coords\<close> (at least one). The positions are
  converted when some frame among \<^verbatim>\<open>coords[1:]\<close> is not equivalent to the first one.
  The flags \<open>targets_is_unitsphericalrep\<close> are taken from the positions as given;
  the distances are read in the loop, after the conversion where there is one.
\<close>

definition convert_to_icrs :: "SkyCoord list \<Rightarrow> bool" where
  "convert_to_icrs coords \<longleftrightarrow>
     \<not> list_all (\<lambda>coord. is_equivalent_frame (frame coord) (frame (hd coords))) (tl coords)"

definition merge_coords :: "astropy \<Rightarrow> SkyCoord list \<Rightarrow> error + coordseq" where
  "merge_coords svc coords =
     (let targets_is_unitsphericalrep = map (\<lambda>x. is_unitspherical (data x)) coords;
          get_distances = \<not> list_all id targets_is_unitsphericalrep
      in
      case (if convert_to_icrs coords then
              (case icrs_loop svc get_distances coords of
                 Inl e \<Rightarrow> Inl e
               | Inr lld \<Rightarrow> Inr (lld, ICRS))
            else
              (case spherical_names (frame (hd coords)) of
                 (lon_name, lat_name) \<Rightarrow>
                   (case frame_loop lon_name lat_name get_distances coords of
                      Inl e \<Rightarrow> Inl e
                    | Inr lld \<Rightarrow> Inr (lld, frame (hd coords)))))
      of
        Inl e \<Rightarrow> Inl e
      | Inr ((longitudes, latitudes, distances), fr) \<Rightarrow>
          if list_all id targets_is_unitsphericalrep then
            Inr (SkyCoord_lonlat longitudes latitudes fr)
          else if \<not> list_ex id targets_is_unitsphericalrep then
            Inr (SkyCoord_lonlatdist longitudes latitudes distances fr)
          else
            Inr (SkyCoord_lonlatdist longitudes latitudes
                   (map (\<lambda>distance. if ne_1 distance then distance else sentinel) distances)
                   fr))"

text \<open>
  From \<^verbatim>\<open>np.array(coords).squeeze().tolist()\<close> on. Of an empty list nothing is read
  until \<^verbatim>\<open>coords[0]\<close>, which raises \<^verbatim>\<open>IndexError\<close>; a list of one object is squeezed
  to the bare object, and \<^verbatim>\<open>coords[1:]\<close> of it raises \<^verbatim>\<open>TypeError\<close>; of two or more
  objects the first comprehension reads \<^verbatim>\<open>.frame\<close> of each.
\<close>

fun merge :: "astropy \<Rightarrow> pyobj list \<Rightarrow> error + coordseq" where
  "merge svc [] = Inl IndexError"
| "merge svc [x] = Inl TypeError"
| "merge svc objs =
     (case those_sum (map as_SkyCoord objs) of
        Inl e \<Rightarrow> Inl e
      | Inr coords \<Rightarrow> merge_coords svc coords)"

text \<open>
  The test before \<^verbatim>\<open>return SkyCoord(coords)\<close>, reached when \<^verbatim>\<open>target_size == 1\<close>:
  \<^verbatim>\<open>not isinstance(targets[0], ConstantElevationTarget) or times.size == 1\<close>.
\<close>

fun isinstance_ConstantElevationTarget :: "pyobj \<Rightarrow> bool" where
  "isinstance_ConstantElevationTarget (TargetObj (ConstantElevationTarget cet)) = True"
| "isinstance_ConstantElevationTarget x = False"

definition direct_return :: "pyobj list \<Rightarrow> Time option \<Rightarrow> error + bool" where
  "direct_return targets times' =
     (case targets of
        [] \<Rightarrow> Inl IndexError
      | t0 # rest \<Rightarrow>
          if \<not> isinstance_ConstantElevationTarget t0 then Inr True
          else (case times' of None \<Rightarrow> Inl AttributeError | Some ts \<Rightarrow> Inr (Time_size ts = 1)))"

definition get_skycoord ::
  "astropy \<Rightarrow> targets_arg \<Rightarrow> Time option \<Rightarrow> Observer option \<Rightarrow> error + coordseq" where
  "get_skycoord svc targets_in times' observer =
     (let target_size = target_size_of targets_in;
          targets = as_list targets_in
      in
      if (case times' of
            None \<Rightarrow> False
          | Some ts \<Rightarrow>
              target_size \<noteq> 1 \<and> Time_size ts \<noteq> 1 \<and> target_size \<noteq> Time_size ts)
      then Inl (ValueError broadcast_msg)
      else
        (case targets_loop svc target_size times' observer 0 targets of
           Inl e \<Rightarrow> Inl e
         | Inr coords \<Rightarrow>
             if target_size = 1 then
               (case direct_return targets times' of
                  Inl e \<Rightarrow> Inl e
                | Inr True \<Rightarrow> Inr (SkyCoord_of_list coords)
                | Inr False \<Rightarrow> merge svc coords)
             else merge svc coords))"

subsection \<open>Notions of the specification\<close>

text \<open>
  A target that needs on-demand evaluation: a \<^verbatim>\<open>ConstantElevationTarget\<close> or a
  \<^verbatim>\<open>SolarSystemTarget\<close>.
\<close>

fun on_demand :: "pyobj \<Rightarrow> bool" where
  "on_demand (TargetObj (ConstantElevationTarget cet)) = True"
| "on_demand (TargetObj (SolarSystemTarget en nm)) = True"
| "on_demand x = False"






text \<open>NotFound of the mock name table is the \<^verbatim>\<open>ValueError\<close> it raises.\<close>

definition NotFound :: "string \<Rightarrow> error" where
  "NotFound query_name = ValueError (not_mocked_msg query_name)"

subsection \<open>Sample values\<close>

text \<open>
  Concrete positions, targets and services at which the theorems below are
  instantiated: M31 with and without its distance, a scan at constant elevation, an
  observer, and an ephemeris that knows the moon only.
\<close>

definition m31 :: SkyCoord where
  "m31 = SkyCoord_radec 10.6847083 41.26875"

definition m31_with_distance :: SkyCoord where
  "m31_with_distance =
     \<lparr>frame = ICRS, data = SphericalRepresentation 10.6847083 41.26875 (Quantity 780 kpc)\<rparr>"


definition sample_scan :: ConstantElevation where
  "sample_scan =
     \<lparr>alt = 60, az_min = 30, az_max = 120, name = Some ''scan'', ramin = None, decc = None,
      alt_var = False, min_alt = None, max_alt = None\<rparr>"

definition sample_observer :: Observer where
  "sample_observer = Observer (EarthLocation (- 67.74) (- 22.98) 5600)"

definition sample_moon :: "Time \<Rightarrow> SkyCoord" where
  "sample_moon t = \<lparr>frame = GCRS t, data = SphericalRepresentation 120 15 (Quantity 0.0025 AU)\<rparr>"

definition sample_get_body :: "string \<Rightarrow> Time \<Rightarrow> EarthLocation \<Rightarrow> error + SkyCoord" where
  "sample_get_body body t loc = (if body = ''moon'' then Inr (sample_moon t) else Inl EphemerisError)"

definition sample_to_icrs :: "SkyCoord \<Rightarrow> representation" where
  "sample_to_icrs c = data c"

definition sample_astropy :: astropy where
  "sample_astropy = \<lparr>get_body = sample_get_body, to_icrs = sample_to_icrs\<rparr>"

section \<open>Broadcasting\<close>

text \<open>
  C2. A list of \<open>T\<close> targets and times of size \<open>S\<close> with \<open>T \<noteq> 1\<close>, \<open>S \<noteq> 1\<close> and
  \<open>T \<noteq> S\<close>: \<^verbatim>\<open>get_skycoord\<close> raises the \<^verbatim>\<open>ValueError\<close> of the size check
  (BroadcastMismatch) and returns nothing, whatever the targets, the observer and the
  services are.
\<close>

theorem broadcast_mismatch:
  assumes "length ts \<noteq> 1" and "Time_size tm \<noteq> 1" and "length ts \<noteq> Time_size tm"
  shows "get_skycoord svc (TList ts) (Some tm) observer = Inl BroadcastMismatch"
  using assms by (simp add: get_skycoord_def BroadcastMismatch_def)

theorem broadcast_mismatch_witness:
  "length [SkyCoordObj m31, SkyCoordObj m31, SkyCoordObj m31_with_distance] \<noteq> 1 \<and>
   Time_size (TimeArray [1, 2, 3, 4, 5]) \<noteq> 1 \<and>
   get_skycoord sample_astropy
     (TList [SkyCoordObj m31, SkyCoordObj m31, SkyCoordObj m31_with_distance])
     (Some (TimeArray [1, 2, 3, 4, 5])) None = Inl BroadcastMismatch"
  using broadcast_mismatch
    [of "[SkyCoordObj m31, SkyCoordObj m31, SkyCoordObj m31_with_distance]"
        "TimeArray [1, 2, 3, 4, 5]" sample_astropy None]
  by simp

section \<open>A single fixed target without times\<close>

text \<open>
  C1. A single \<^verbatim>\<open>FixedTarget\<close>, given alone or as a list of one, with
  \<^verbatim>\<open>times=None\<close>: the loop reaches \<^verbatim>\<open>range(times.size)\<close> and raises
  \<^verbatim>\<open>AttributeError\<close>; the stored position is not returned.
\<close>

theorem single_fixed_target_no_times:
  "get_skycoord svc (Single (TargetObj (FixedTarget c nm))) None observer = Inl AttributeError \<and>
   get_skycoord svc (TList [TargetObj (FixedTarget c nm)]) None observer = Inl AttributeError"
  by (simp add: get_skycoord_def target_coords_def select_time_def)

section \<open>Absent times and absent observer\<close>

lemma as_list_size_1:
  assumes "target_size_of targets = 1"
  shows "\<exists>t. as_list targets = [t]"
  using assms by (cases targets) (auto simp: length_Suc_conv)

lemma size_length: "target_size_of targets = length (as_list targets)"
  by (cases targets) simp_all

lemma target_coords_no_times_on_demand:
  assumes "on_demand t"
  shows "\<exists>e. target_coords svc n None observer i t = Inl e \<and> MissingInput e"
  using assms
  by (cases t rule: on_demand.cases)
     (simp_all add: target_coords_def select_time_def MissingInput_def)

lemma target_coords_no_times_other:
  assumes "\<not> on_demand t" and "n \<noteq> 1"
  shows "\<exists>cs. target_coords svc n None observer i t = Inr cs"
  using assms
  by (cases t rule: on_demand.cases)
     (simp_all add: target_coords_def select_time_def split: pyobj.splits Target.splits)

lemma targets_loop_no_times:
  assumes "n \<noteq> 1" and "\<exists>t \<in> set ts. on_demand t"
  shows "\<exists>e. targets_loop svc n None observer i ts = Inl e \<and> MissingInput e"
  using assms(2)
proof (induction ts arbitrary: i)
  case Nil
  then show ?case by simp
next
  case (Cons t ts)
  show ?case
  proof (cases "on_demand t")
    case True
    then obtain e where "target_coords svc n None observer i t = Inl e" and "MissingInput e"
      using target_coords_no_times_on_demand by blast
    then show ?thesis by simp
  next
    case False
    then obtain cs where cs: "target_coords svc n None observer i t = Inr cs"
      using target_coords_no_times_other assms(1) by blast
    from False Cons.prems have "\<exists>t \<in> set ts. on_demand t" by auto
    then obtain e where "targets_loop svc n None observer (Suc i) ts = Inl e" and "MissingInput e"
      using Cons.IH by blast
    with cs show ?thesis by simp
  qed
qed

lemma no_times_MissingInput:
  assumes "\<exists>t \<in> set (as_list targets). on_demand t"
  shows "\<exists>e. get_skycoord svc targets None observer = Inl e \<and> MissingInput e"
proof (cases "target_size_of targets = 1")
  case True
  then obtain t where t: "as_list targets = [t]" using as_list_size_1 by blast
  with assms have "on_demand t" by simp
  then obtain e where "target_coords svc 1 None observer 0 t = Inl e" and "MissingInput e"
    using target_coords_no_times_on_demand by blast
  with True t show ?thesis by (simp add: get_skycoord_def)
next
  case False
  then obtain e where
    "targets_loop svc (target_size_of targets) None observer 0 (as_list targets) = Inl e"
    and "MissingInput e"
    using targets_loop_no_times assms by blast
  then show ?thesis by (simp add: get_skycoord_def)
qed

text \<open>
  C4. Whenever a \<^verbatim>\<open>ConstantElevationTarget\<close> or a \<^verbatim>\<open>SolarSystemTarget\<close> is
  evaluated through \<^verbatim>\<open>get_skycoord\<close> with \<^verbatim>\<open>times=None\<close>, alone or anywhere in a list
  of targets, the call raises one of the two \<^verbatim>\<open>ValueError\<close>s that ask for times
  (MissingInput), whatever the observer is.
\<close>

theorem missing_times:
  assumes "\<exists>t \<in> set (as_list targets). on_demand t"
  shows "\<exists>e. get_skycoord svc targets None observer = Inl e \<and> MissingInput e"
  using assms by (rule no_times_MissingInput)

theorem missing_times_witness:
  "on_demand (TargetObj (ConstantElevationTarget sample_scan)) \<and>
   (\<exists>e. get_skycoord sample_astropy
           (TList [TargetObj (FixedTarget m31 None), TargetObj (ConstantElevationTarget sample_scan)])
           None (Some sample_observer) = Inl e \<and> MissingInput e) \<and>
   (\<exists>e. get_skycoord sample_astropy (Single (TargetObj (SolarSystemTarget ''Moon'' None)))
           None (Some sample_observer) = Inl e \<and> MissingInput e)"
  using
    missing_times [of "TList [TargetObj (FixedTarget m31 None),
                              TargetObj (ConstantElevationTarget sample_scan)]"
                      sample_astropy "Some sample_observer"]
    missing_times [of "Single (TargetObj (SolarSystemTarget ''Moon'' None))"
                      sample_astropy "Some sample_observer"]
  by simp

lemma select_time_ok:
  assumes "i < n" and "Time_size ts = 1 \<or> n = 1 \<or> Time_size ts = n"
  shows "\<exists>tm. select_time (Some ts) n i = Inr (Some tm) \<and>
           (Time_size tm = 1 \<or> (tm = ts \<and> n = 1))"
  using assms by (cases ts) (auto simp: select_time_def)

lemma cet_coords_no_observer:
  assumes "2 \<le> Time_size tm"
  shows "cet_coords cet tm None [0 ..< Time_size tm] = Inl AttributeError"
proof -
  obtain ts where tm: "tm = TimeArray ts" using assms by (cases tm) auto
  have "[0 ..< Time_size tm] = 0 # [1 ..< Time_size tm]"
    using assms by (simp add: upt_conv_Cons)
  then show ?thesis using assms tm by auto
qed

lemma target_coords_no_observer:
  assumes "on_demand t" and "i < n" and "Time_size ts = 1 \<or> n = 1 \<or> Time_size ts = n"
    and "Time_size ts \<noteq> 0"
  shows "target_coords svc n (Some ts) None i t = Inl AttributeError"
proof -
  obtain tm where tm: "select_time (Some ts) n i = Inr (Some tm)"
    and sz: "Time_size tm = 1 \<or> (tm = ts \<and> n = 1)"
    using select_time_ok assms(2,3) by blast
  show ?thesis
  proof (cases t rule: on_demand.cases)
    case (1 cet)
    show ?thesis
    proof (cases "Time_size tm = 1")
      case True
      with 1 tm show ?thesis by (simp add: target_coords_def)
    next
      case False
      with sz assms(4) have "tm = ts" and "2 \<le> Time_size ts" by auto
      with 1 tm False show ?thesis
        by (simp add: target_coords_def cet_coords_no_observer)
    qed
  next
    case (2 en nm)
    with tm show ?thesis by (simp add: target_coords_def)
  qed (use assms(1) in simp_all)
qed

lemma target_coords_times_other:
  assumes "\<not> on_demand t" and "i < n" and "Time_size ts = 1 \<or> n = 1 \<or> Time_size ts = n"
  shows "\<exists>cs. target_coords svc n (Some ts) observer i t = Inr cs"
proof -
  obtain tm where tm: "select_time (Some ts) n i = Inr (Some tm)"
    using select_time_ok assms(2,3) by blast
  with assms(1) show ?thesis
    by (cases t rule: on_demand.cases)
       (simp_all add: target_coords_def split: pyobj.splits Target.splits)
qed

lemma targets_loop_no_observer:
  assumes "i + length xs = n" and "Time_size ts = 1 \<or> n = 1 \<or> Time_size ts = n"
    and "Time_size ts \<noteq> 0" and "\<exists>t \<in> set xs. on_demand t"
  shows "targets_loop svc n (Some ts) None i xs = Inl AttributeError"
  using assms(1,4)
proof (induction xs arbitrary: i)
  case Nil
  then show ?case by simp
next
  case (Cons t xs)
  then have i: "i < n" and rest: "Suc i + length xs = n" by auto
  show ?case
  proof (cases "on_demand t")
    case True
    then show ?thesis
      using target_coords_no_observer [OF True i assms(2,3)] by simp
  next
    case False
    then obtain cs where cs: "target_coords svc n (Some ts) None i t = Inr cs"
      using target_coords_times_other i assms(2) by blast
    from False Cons.prems have "\<exists>t \<in> set xs. on_demand t" by auto
    then have "targets_loop svc n (Some ts) None (Suc i) xs = Inl AttributeError"
      using Cons.IH rest by blast
    with cs show ?thesis by simp
  qed
qed

lemma empty_times_single:
  assumes "on_demand t" and "Time_size ts = 0" and "as_list targets = [t]"
  shows "get_skycoord svc targets (Some ts) None =
           Inl (if isinstance_ConstantElevationTarget t then IndexError else AttributeError)"
proof -
  have n: "target_size_of targets = 1" using assms(3) by (simp add: size_length)
  have st: "select_time (Some ts) 1 0 = Inr (Some ts)" by (simp add: select_time_def)
  show ?thesis
    using assms(1)
  proof (cases t rule: on_demand.cases)
    case (1 cet)
    then show ?thesis using assms n st
      by (simp add: get_skycoord_def target_coords_def direct_return_def)
  next
    case (2 en nm)
    then show ?thesis using assms n st
      by (simp add: get_skycoord_def target_coords_def)
  qed simp_all
qed

lemma times_no_observer:
  assumes "\<exists>t \<in> set (as_list targets). on_demand t"
  shows "get_skycoord svc targets (Some ts) None =
           Inl (if target_size_of targets \<noteq> 1 \<and> Time_size ts \<noteq> 1 \<and>
                   target_size_of targets \<noteq> Time_size ts
                then BroadcastMismatch
                else if Time_size ts = 0 \<and> isinstance_ConstantElevationTarget (hd (as_list targets))
                then IndexError
                else AttributeError)"
proof (cases "target_size_of targets \<noteq> 1 \<and> Time_size ts \<noteq> 1 \<and>
              target_size_of targets \<noteq> Time_size ts")
  case True
  then show ?thesis by (simp add: get_skycoord_def BroadcastMismatch_def)
next
  case False
  then have bc:
    "Time_size ts = 1 \<or> target_size_of targets = 1 \<or> Time_size ts = target_size_of targets"
    by auto
  show ?thesis
  proof (cases "Time_size ts = 0")
    case True
    with bc have "target_size_of targets = 1 \<or> target_size_of targets = 0" by auto
    moreover have "target_size_of targets \<noteq> 0" using assms by (auto simp: size_length)
    ultimately obtain t where t: "as_list targets = [t]" using as_list_size_1 by blast
    with assms have "on_demand t" by simp
    moreover have "target_size_of targets = 1" using t by (simp add: size_length)
    ultimately show ?thesis using empty_times_single [OF _ True t] t True by simp
  next
    case nz: False
    have "targets_loop svc (target_size_of targets) (Some ts) None 0 (as_list targets)
            = Inl AttributeError"
      using targets_loop_no_observer [of 0 "as_list targets" "target_size_of targets" ts svc]
        bc nz assms
      by (simp add: size_length)
    with bc nz show ?thesis by (auto simp: get_skycoord_def Let_def)
  qed
qed

text \<open>
  C5, as the code has it. When the targets include a \<^verbatim>\<open>ConstantElevationTarget\<close> or a
  \<^verbatim>\<open>SolarSystemTarget\<close> and \<^verbatim>\<open>observer\<close> is \<^verbatim>\<open>None\<close>, the call always fails and
  returns nothing. The error is MissingInput only when \<^verbatim>\<open>times\<close> is \<^verbatim>\<open>None\<close> too.
  With times given it is the \<^verbatim>\<open>ValueError\<close> of the size check when the sizes
  conflict, and otherwise the \<^verbatim>\<open>AttributeError\<close> of reading \<^verbatim>\<open>observer.location\<close>
  (\<^verbatim>\<open>IndexError\<close>, from the merge of no positions, for one
  \<^verbatim>\<open>ConstantElevationTarget\<close> with an empty array of times): the module has no check
  of the observer.
\<close>

theorem absent_observer_fails:
  assumes "\<exists>t \<in> set (as_list targets). on_demand t"
  shows "\<exists>e. get_skycoord svc targets times' None = Inl e \<and>
           (case times' of
              None \<Rightarrow> MissingInput e
            | Some ts \<Rightarrow>
                e = (if target_size_of targets \<noteq> 1 \<and> Time_size ts \<noteq> 1 \<and>
                        target_size_of targets \<noteq> Time_size ts
                     then BroadcastMismatch
                     else if Time_size ts = 0 \<and>
                             isinstance_ConstantElevationTarget (hd (as_list targets))
                     then IndexError
                     else AttributeError))"
proof (cases times')
  case None
  then show ?thesis using no_times_MissingInput [OF assms] by simp
next
  case (Some ts)
  then show ?thesis using times_no_observer [OF assms] by simp
qed

theorem absent_observer_fails_witness:
  "on_demand (TargetObj (SolarSystemTarget ''Moon'' None)) \<and>
   (\<exists>e. get_skycoord sample_astropy
           (TList [SkyCoordObj m31, TargetObj (SolarSystemTarget ''Moon'' None)])
           (Some (TimeArray [1, 2])) None = Inl e \<and> e = AttributeError)"
  using absent_observer_fails
    [of "TList [SkyCoordObj m31, TargetObj (SolarSystemTarget ''Moon'' None)]"
        sample_astropy "Some (TimeArray [1, 2])"]
  by simp

text \<open>
  C5 as stated fails: a \<^verbatim>\<open>SolarSystemTarget\<close> with a time and no observer raises
  \<^verbatim>\<open>AttributeError\<close>, which is not MissingInput.
\<close>

theorem absent_observer_counterexample:
  "get_skycoord sample_astropy (Single (TargetObj (SolarSystemTarget ''Moon'' None)))
     (Some (TimeScalar 2459000)) None = Inl AttributeError \<and>
   \<not> MissingInput AttributeError"
  by (simp add: get_skycoord_def target_coords_def select_time_def MissingInput_def)

section \<open>Right ascension and declination of a target\<close>




section \<open>The merge, equationally\<close>

lemma those_sum_map_Inr: "those_sum (map Inr ys) = Inr ys"
  by (induction ys) simp_all

lemma those_sum_InrD: "those_sum xs = Inr ys \<Longrightarrow> xs = map Inr ys"
proof (induction xs arbitrary: ys)
  case Nil
  then show ?case by simp
next
  case (Cons x xs)
  then show ?case by (cases x) (auto split: sum.splits)
qed

lemma those_sum_Inr: "those_sum xs = Inr ys \<longleftrightarrow> xs = map Inr ys"
  using those_sum_InrD those_sum_map_Inr by blast















lemma lower_MOON: "lower ''MOON'' = ''moon''"
  by code_simp


section \<open>Element-wise pairing\<close>




section \<open>Positions with and without distance\<close>





section \<open>The direct return\<close>







section \<open>The mock name table\<close>

lemma keys_lower: "\<forall>k \<in> fst ` set stars. lower k = k"
  by (simp add: stars_def lower_def lower_char_def)

text \<open>
  C9. \<^verbatim>\<open>_from_name_mock\<close> looks the lowercased query up in the table: for a query that
  equals a key of the table up to letter case it returns the \<^verbatim>\<open>FixedTarget\<close> of that
  entry's coordinates, named by the query as given; for every other query it raises
  the \<^verbatim>\<open>ValueError\<close> of a name not in the table (NotFound).
\<close>

theorem from_name_mock_lookup:
  "(\<forall>k ra dec. (k, ra, dec) \<in> set stars \<longrightarrow> lower q = lower k \<longrightarrow>
      from_name_mock q nm = Inr (FixedTarget (SkyCoord_radec ra dec) (Some q))) \<and>
   ((\<forall>k \<in> fst ` set stars. lower q \<noteq> lower k) \<longrightarrow> from_name_mock q nm = Inl (NotFound q))"
proof (intro conjI allI impI)
  fix k ra dec
  assume k: "(k, ra, dec) \<in> set stars" and q: "lower q = lower k"
  have d: "distinct (map fst stars)" by (simp add: stars_def)
  have "lower k = k" using k keys_lower by force
  then have "map_of stars (lower q) = Some (ra, dec)"
    using k q d by simp
  then show "from_name_mock q nm = Inr (FixedTarget (SkyCoord_radec ra dec) (Some q))"
    by (simp add: from_name_mock_def)
next
  assume "\<forall>k \<in> fst ` set stars. lower q \<noteq> lower k"
  then have "lower q \<notin> fst ` set stars" using keys_lower by force
  then have "map_of stars (lower q) = None" by (simp add: map_of_eq_None_iff)
  then show "from_name_mock q nm = Inl (NotFound q)"
    by (simp add: from_name_mock_def NotFound_def)
qed

theorem from_name_mock_lookup_witness:
  "from_name_mock ''Sirius'' None =
     Inr (FixedTarget (SkyCoord_radec 101.28715533 (- 16.71611586)) (Some ''Sirius'')) \<and>
   from_name_mock ''HD 209458'' (Some ''Osiris'') =
     Inr (FixedTarget (SkyCoord_radec 330.79 18.88) (Some ''HD 209458'')) \<and>
   from_name_mock ''Betelgeuse'' None = Inl (NotFound ''Betelgeuse'')"
proof -
  have l1: "lower ''Sirius'' = lower ''sirius''" by code_simp
  have l2: "lower ''HD 209458'' = lower ''hd 209458''" by code_simp
  have l3: "lower ''Betelgeuse'' = ''betelgeuse''" by code_simp
  have m1: "(''sirius'', 101.28715533, - 16.71611586) \<in> set stars"
    and m2: "(''hd 209458'', 330.79, 18.88) \<in> set stars"
    by (simp_all add: stars_def)
  have miss: "\<forall>k \<in> fst ` set stars. lower ''Betelgeuse'' \<noteq> lower k"
    using keys_lower unfolding l3 by (simp add: stars_def)
  from from_name_mock_lookup [of "''Sirius''" None]
       from_name_mock_lookup [of "''HD 209458''" "Some ''Osiris''"]
       from_name_mock_lookup [of "''Betelgeuse''" None]
       l1 l2 m1 m2 miss
  show ?thesis by blast
qed


section \<open>The name of an ephemeris body\<close>









end
